theory Spec2Isabelle
  imports Complex_Main
begin

section \<open>Python values\<close>

text \<open>
  The program is \<^verbatim>\<open>src/sysinfo.py\<close>: five sub-queries read the operating system through
  \<^verbatim>\<open>platform\<close>, \<^verbatim>\<open>psutil\<close>, \<^verbatim>\<open>cpuinfo\<close> and \<^verbatim>\<open>GPUtil\<close>, and \<^verbatim>\<open>get_sysinfo\<close> puts their
  results into one dictionary.

  An exception is a value: its class name and the text that \<^verbatim>\<open>str(e)\<close> gives. The type
  stands for the instances of \<^verbatim>\<open>Exception\<close>, which is what \<^verbatim>\<open>except Exception\<close> catches and
  what the libraries and the arithmetic raise. A function that can raise returns
  \<open>exn + 'a\<close>, with \<open>Inl\<close> for the exception that leaves it.
\<close>

datatype exn = Exn (exn_class: string) (str: string)

text \<open>
  A Python \<^verbatim>\<open>float\<close> is an IEEE 754 double: a finite value, which is a rational number, an
  infinity or a NaN. The two zeros are one value here (Python's \<^verbatim>\<open>==\<close> does not tell them
  apart either).
\<close>

datatype pyfloat = Finite rat | PosInf | NegInf | NaN

text \<open>
  The values the program puts into its dictionaries. A dictionary is an association
  list, in insertion order, as a Python \<^verbatim>\<open>dict\<close> keeps it.
\<close>

datatype pyval =
    PyNone
  | PyInt int
  | PyFloat pyfloat
  | PyStr string
  | PyList "pyval list"
  | PyDict "(string \<times> pyval) list"

text \<open>\<^verbatim>\<open>d.get(k, default)\<close>\<close>

definition dict_get :: "(string \<times> pyval) list \<Rightarrow> string \<Rightarrow> pyval \<Rightarrow> pyval" where
  "dict_get d k dflt = (case map_of d k of None \<Rightarrow> dflt | Some v \<Rightarrow> v)"

text \<open>\<^verbatim>\<open>d[k] = v\<close>: an existing key keeps its place, a new key goes to the end.\<close>

fun dict_setitem :: "(string \<times> pyval) list \<Rightarrow> string \<Rightarrow> pyval \<Rightarrow> (string \<times> pyval) list" where
  "dict_setitem [] k v = [(k, v)]"
| "dict_setitem (p # ps) k v = (if fst p = k then (k, v) # ps else p # dict_setitem ps k v)"

text \<open>\<^verbatim>\<open>s or default\<close> on strings: the empty string is false.\<close>

definition str_or :: "string \<Rightarrow> string \<Rightarrow> string" where
  "str_or s dflt = (if s = [] then dflt else s)"

text \<open>Sequencing of calls that may raise, and \<^verbatim>\<open>try: ... except Exception as e: ...\<close>.\<close>

definition bind_exn :: "exn + 'a \<Rightarrow> ('a \<Rightarrow> exn + 'b) \<Rightarrow> exn + 'b" where
  "bind_exn m f = (case m of Inl e \<Rightarrow> Inl e | Inr x \<Rightarrow> f x)"

definition try_except :: "exn + 'a \<Rightarrow> (exn \<Rightarrow> exn + 'a) \<Rightarrow> exn + 'a" where
  "try_except body handler = (case body of Inl e \<Rightarrow> handler e | Inr x \<Rightarrow> Inr x)"

section \<open>Float arithmetic\<close>

text \<open>
  \<^verbatim>\<open>int.bit_length()\<close>: the number of binary digits of a natural number.
\<close>

fun bit_length :: "nat \<Rightarrow> nat" where
  "bit_length n = (if n = 0 then 0 else Suc (bit_length (n div 2)))"

declare bit_length.simps [simp del]

definition pow2 :: "int \<Rightarrow> rat" where
  "pow2 e = (if 0 \<le> e then 2 ^ nat e else 1 / 2 ^ nat (- e))"

text \<open>Rounding to the nearest integer, a tie going to the even one.\<close>

definition round_half_even :: "rat \<Rightarrow> int" where
  "round_half_even q =
     (let f = \<lfloor>q\<rfloor>; r = q - of_int f
      in if r < 1 / 2 then f else if 1 / 2 < r then f + 1 else if even f then f else f + 1)"

text \<open>
  The binary exponent of a positive rational: \<open>binade q = e\<close> with
  \<open>2 ^ e \<le> q < 2 ^ (e + 1)\<close>.
\<close>

definition binade :: "rat \<Rightarrow> int" where
  "binade q =
     (if 1 \<le> q then int (bit_length (nat \<lfloor>q\<rfloor>)) - 1
      else - int (bit_length (nat (\<lceil>1 / q\<rceil> - 1))))"

text \<open>
  The double nearest to a non-negative rational (round to nearest, ties to even):
  53 significant bits, the spacing of the subnormal range below \<open>2 ^ - 1022\<close>.
  The result may be \<open>2 ^ 1024\<close>, which is beyond the largest double; \<open>fl\<close> makes it
  an infinity.
\<close>

definition nearest_double :: "rat \<Rightarrow> rat" where
  "nearest_double q =
     (if q = 0 then 0
      else let ulp = pow2 (max (binade q) (- 1022) - 52)
           in of_int (round_half_even (q / ulp)) * ulp)"

definition fl :: "rat \<Rightarrow> pyfloat" where
  "fl q =
     (let m = nearest_double \<bar>q\<bar>
      in if 2 ^ 1024 \<le> m then (if 0 < q then PosInf else NegInf)
         else Finite (if q < 0 then - m else m))"

text \<open>
  \<^verbatim>\<open>a / b\<close> on two \<^verbatim>\<open>int\<close>s: the correctly rounded quotient, \<^verbatim>\<open>ZeroDivisionError\<close> for
  \<^verbatim>\<open>b == 0\<close>, \<^verbatim>\<open>OverflowError\<close> when the quotient is beyond the doubles.
\<close>

definition int_true_divide :: "int \<Rightarrow> int \<Rightarrow> exn + pyfloat" where
  "int_true_divide a b =
     (if b = 0 then Inl (Exn ''ZeroDivisionError'' ''division by zero'')
      else case fl (of_int a / of_int b) of
             Finite x \<Rightarrow> Inr (Finite x)
           | _ \<Rightarrow> Inl (Exn ''OverflowError'' ''integer division result too large for a float''))"

text \<open>
  \<^verbatim>\<open>round(x, d)\<close> on a float: the decimal with \<open>d\<close> digits after the point nearest to the
  exact value of \<open>x\<close> (a tie going to the even digit), then the double nearest to that
  decimal. An infinity or a NaN is returned as it is.
\<close>

definition round_to_decimals :: "nat \<Rightarrow> rat \<Rightarrow> rat" where
  "round_to_decimals d q = of_int (round_half_even (q * 10 ^ d)) / 10 ^ d"

fun py_round :: "pyfloat \<Rightarrow> nat \<Rightarrow> pyfloat" where
  "py_round (Finite q) d = fl (round_to_decimals d q)"
| "py_round x d = x"

text \<open>\<^verbatim>\<open>x * y\<close> on floats.\<close>

fun float_mul :: "pyfloat \<Rightarrow> pyfloat \<Rightarrow> pyfloat" where
  "float_mul (Finite a) (Finite b) = fl (a * b)"
| "float_mul NaN y = NaN"
| "float_mul x NaN = NaN"
| "float_mul PosInf (Finite b) = (if b = 0 then NaN else if 0 < b then PosInf else NegInf)"
| "float_mul NegInf (Finite b) = (if b = 0 then NaN else if 0 < b then NegInf else PosInf)"
| "float_mul (Finite a) PosInf = (if a = 0 then NaN else if 0 < a then PosInf else NegInf)"
| "float_mul (Finite a) NegInf = (if a = 0 then NaN else if 0 < a then NegInf else PosInf)"
| "float_mul PosInf PosInf = PosInf"
| "float_mul PosInf NegInf = NegInf"
| "float_mul NegInf PosInf = NegInf"
| "float_mul NegInf NegInf = PosInf"

section \<open>The data sources\<close>

text \<open>\<^verbatim>\<open>platform.uname()\<close>\<close>

record uname_result =
  uname_system :: string
  uname_node :: string
  uname_release :: string
  uname_version :: string
  uname_machine :: string
  uname_processor :: string

text \<open>\<^verbatim>\<open>psutil.cpu_freq()\<close>, \<^verbatim>\<open>psutil.virtual_memory()\<close> and \<^verbatim>\<open>psutil.disk_usage(path)\<close>:
  the fields the program reads.\<close>

record scpufreq =
  scpufreq_current :: pyfloat

record svmem =
  svmem_total :: int
  svmem_available :: int
  svmem_used :: int
  svmem_percent :: pyfloat

record sdiskusage =
  sdiskusage_total :: int
  sdiskusage_used :: int
  sdiskusage_free :: int
  sdiskusage_percent :: pyfloat

text \<open>One element of \<^verbatim>\<open>GPUtil.getGPUs()\<close>.\<close>

record gpu =
  gpu_id :: int
  gpu_name :: string
  gpu_memoryTotal :: pyfloat
  gpu_memoryUsed :: pyfloat
  gpu_memoryFree :: pyfloat
  gpu_load :: pyfloat
  gpu_temperature :: pyfloat

text \<open>
  The environment of one call of \<^verbatim>\<open>get_sysinfo\<close>: the two flags set when the module is
  imported, and what each library call does, which is to return a value or to raise.
  \<^verbatim>\<open>psutil.cpu_count\<close> returns a count or \<^verbatim>\<open>None\<close>, \<^verbatim>\<open>psutil.cpu_freq\<close> a tuple or
  \<^verbatim>\<open>None\<close>. \<open>psutil_cpu_percent\<close> is the call with \<^verbatim>\<open>interval=0.1\<close>.
\<close>

record env =
  GPU_AVAILABLE :: bool
  CPUINFO_AVAILABLE :: bool
  platform_uname :: "exn + uname_result"
  platform_processor :: "exn + string"
  platform_system :: "exn + string"
  psutil_cpu_count :: "bool \<Rightarrow> exn + nat option"
  psutil_cpu_percent :: "exn + pyfloat"
  psutil_cpu_freq :: "exn + scpufreq option"
  psutil_virtual_memory :: "exn + svmem"
  psutil_disk_usage :: "string \<Rightarrow> exn + sdiskusage"
  cpuinfo_get_cpu_info :: "exn + (string \<times> pyval) list"
  GPUtil_getGPUs :: "exn + gpu list"

section \<open>The program\<close>

definition bytes_to_gb :: "int \<Rightarrow> exn + pyfloat" where
  "bytes_to_gb bytes_value =
     bind_exn (int_true_divide bytes_value (1024 ^ 3)) (\<lambda>x. Inr (py_round x 2))"

definition get_system_info :: "env \<Rightarrow> exn + pyval" where
  "get_system_info env =
     bind_exn (platform_uname env) (\<lambda>uname.
       Inr (PyDict
         [(''system_name'', PyStr (uname_system uname)),
          (''node_name'', PyStr (uname_node uname)),
          (''os_release'', PyStr (uname_release uname)),
          (''os_version'', PyStr (uname_version uname)),
          (''machine_type'', PyStr (uname_machine uname)),
          (''processor'', PyStr (uname_processor uname))]))"

definition cpu_count_value :: "nat option \<Rightarrow> pyval" where
  "cpu_count_value c = (case c of None \<Rightarrow> PyNone | Some n \<Rightarrow> PyInt (int n))"

definition platform_processor_name :: "env \<Rightarrow> (string \<times> pyval) list \<Rightarrow> exn + pyval" where
  "platform_processor_name env cpu_data =
     bind_exn (platform_processor env) (\<lambda>p.
       Inr (PyDict (dict_setitem cpu_data ''processor_name'' (PyStr (str_or p ''Unknown'')))))"

definition get_cpu_info :: "env \<Rightarrow> exn + pyval" where
  "get_cpu_info env =
     bind_exn (psutil_cpu_count env False) (\<lambda>physical.
     bind_exn (psutil_cpu_count env True) (\<lambda>logical.
     bind_exn (psutil_cpu_percent env) (\<lambda>usage.
       let cpu_data =
             [(''physical_cores'', cpu_count_value physical),
              (''logical_cores'', cpu_count_value logical),
              (''cpu_usage_percent'', PyFloat usage)]
       in
     bind_exn (psutil_cpu_freq env) (\<lambda>cpu_freq.
       let cpu_data =
             (case cpu_freq of
                None \<Rightarrow> cpu_data
              | Some f \<Rightarrow>
                  dict_setitem cpu_data ''cpu_frequency_mhz''
                    (PyFloat (py_round (scpufreq_current f) 2)))
       in
       if CPUINFO_AVAILABLE env then
         try_except
           (bind_exn (cpuinfo_get_cpu_info env) (\<lambda>info.
              Inr (PyDict (dict_setitem cpu_data ''processor_name''
                     (dict_get info ''brand_raw'' (PyStr ''Unknown''))))))
           (\<lambda>e. platform_processor_name env cpu_data)
       else platform_processor_name env cpu_data))))"

definition get_memory_info :: "env \<Rightarrow> exn + pyval" where
  "get_memory_info env =
     bind_exn (psutil_virtual_memory env) (\<lambda>mem.
     bind_exn (bytes_to_gb (svmem_total mem)) (\<lambda>total_gb.
     bind_exn (bytes_to_gb (svmem_available mem)) (\<lambda>available_gb.
     bind_exn (bytes_to_gb (svmem_used mem)) (\<lambda>used_gb.
       Inr (PyDict
         [(''total_gb'', PyFloat total_gb),
          (''available_gb'', PyFloat available_gb),
          (''used_gb'', PyFloat used_gb),
          (''utilization_percent'', PyFloat (svmem_percent mem))])))))"

text \<open>The root volume: \<^verbatim>\<open>"C:\\"\<close> on Windows, \<^verbatim>\<open>"/"\<close> elsewhere.\<close>

definition root_path :: "string \<Rightarrow> string" where
  "root_path system = (if system = ''Windows'' then ''C:'' @ [CHR 0x5C] else ''/'')"

definition get_disk_info :: "env \<Rightarrow> exn + pyval" where
  "get_disk_info env =
     try_except
       (bind_exn (platform_system env) (\<lambda>system.
        bind_exn (psutil_disk_usage env (root_path system)) (\<lambda>disk.
        bind_exn (bytes_to_gb (sdiskusage_total disk)) (\<lambda>total_gb.
        bind_exn (bytes_to_gb (sdiskusage_used disk)) (\<lambda>used_gb.
        bind_exn (bytes_to_gb (sdiskusage_free disk)) (\<lambda>free_gb.
          Inr (PyDict
            [(''total_gb'', PyFloat total_gb),
             (''used_gb'', PyFloat used_gb),
             (''free_gb'', PyFloat free_gb),
             (''utilization_percent'', PyFloat (sdiskusage_percent disk))])))))))
       (\<lambda>e. Inr (PyDict [(''error'', PyStr (str e))]))"

text \<open>The dictionary appended for one device, and the loop over the devices.\<close>

definition gpu_entry :: "gpu \<Rightarrow> pyval" where
  "gpu_entry g =
     PyDict
       [(''id'', PyInt (gpu_id g)),
        (''name'', PyStr (gpu_name g)),
        (''memory_total_mb'', PyFloat (py_round (gpu_memoryTotal g) 2)),
        (''memory_used_mb'', PyFloat (py_round (gpu_memoryUsed g) 2)),
        (''memory_free_mb'', PyFloat (py_round (gpu_memoryFree g) 2)),
        (''gpu_utilization_percent'', PyFloat (float_mul (gpu_load g) (Finite 100))),
        (''temperature_c'', PyFloat (gpu_temperature g))]"

fun gpu_loop :: "gpu list \<Rightarrow> pyval list \<Rightarrow> pyval list" where
  "gpu_loop [] gpu_list = gpu_list"
| "gpu_loop (g # gpus) gpu_list = gpu_loop gpus (gpu_list @ [gpu_entry g])"

definition get_gpu_info :: "env \<Rightarrow> exn + pyval" where
  "get_gpu_info env =
     (if \<not> GPU_AVAILABLE env then
        Inr (PyDict [(''status'', PyStr ''GPUtil not installed or no NVIDIA GPU detected'')])
      else
        try_except
          (bind_exn (GPUtil_getGPUs env) (\<lambda>gpus.
             if gpus = [] then Inr (PyDict [(''status'', PyStr ''No NVIDIA GPU detected'')])
             else Inr (PyList (gpu_loop gpus []))))
          (\<lambda>e. Inr (PyDict [(''status'', PyStr (''Error getting GPU info: '' @ str e))])))"

definition get_sysinfo :: "env \<Rightarrow> exn + pyval" where
  "get_sysinfo env =
     bind_exn (get_system_info env) (\<lambda>system.
     bind_exn (get_cpu_info env) (\<lambda>cpu.
     bind_exn (get_memory_info env) (\<lambda>memory.
     bind_exn (get_disk_info env) (\<lambda>disk.
     bind_exn (get_gpu_info env) (\<lambda>gpu.
       Inr (PyDict
         [(''system'', system),
          (''cpu'', cpu),
          (''memory'', memory),
          (''disk'', disk),
          (''gpu'', gpu)]))))))"

section \<open>Reading a result\<close>

text \<open>The keys of a dictionary, in order, and \<^verbatim>\<open>d[k]\<close> where the key is present.\<close>

definition dict_keys :: "pyval \<Rightarrow> string list" where
  "dict_keys v = (case v of PyDict d \<Rightarrow> map fst d | _ \<Rightarrow> [])"

definition dict_item :: "pyval \<Rightarrow> string \<Rightarrow> pyval option" where
  "dict_item v k = (case v of PyDict d \<Rightarrow> map_of d k | _ \<Rightarrow> None)"

section \<open>Sample environments\<close>

text \<open>
  A Linux host with four cores, 16 GiB of memory, a 500 GiB root volume, neither
  \<^verbatim>\<open>GPUtil\<close> nor \<^verbatim>\<open>cpuinfo\<close> installed, and a clock of \<open>2399.998046875\<close> MHz.
\<close>

definition sample_env :: env where
  "sample_env =
     \<lparr>GPU_AVAILABLE = False,
      CPUINFO_AVAILABLE = False,
      platform_uname =
        Inr \<lparr>uname_system = ''Linux'', uname_node = ''host'', uname_release = ''6.1.0'',
             uname_version = ''#1 SMP'', uname_machine = ''x86_64'',
             uname_processor = ''x86_64''\<rparr>,
      platform_processor = Inr ''x86_64'',
      platform_system = Inr ''Linux'',
      psutil_cpu_count = (\<lambda>logical. Inr (Some (if logical then 8 else 4))),
      psutil_cpu_percent = Inr (Finite (25 / 2)),
      psutil_cpu_freq = Inr (Some \<lparr>scpufreq_current = Finite (1228799 / 512)\<rparr>),
      psutil_virtual_memory =
        Inr \<lparr>svmem_total = 17179869184, svmem_available = 8589934592,
             svmem_used = 8589934592, svmem_percent = Finite 50\<rparr>,
      psutil_disk_usage =
        (\<lambda>path. if path = ''/''
           then Inr \<lparr>sdiskusage_total = 536870912000, sdiskusage_used = 161061273600,
                     sdiskusage_free = 375809638400, sdiskusage_percent = Finite 30\<rparr>
           else Inl (Exn ''FileNotFoundError'' ''[Errno 2] No such file or directory'')),
      cpuinfo_get_cpu_info = Inr [],
      GPUtil_getGPUs = Inr []\<rparr>"

text \<open>A device with \<open>1024.50390625\<close> MB used, \<open>7167.49609375\<close> MB free and a load of \<open>0.25\<close>.\<close>

definition sample_gpu :: gpu where
  "sample_gpu =
     \<lparr>gpu_id = 0, gpu_name = ''NVIDIA GeForce RTX 3070'',
      gpu_memoryTotal = Finite 8192, gpu_memoryUsed = Finite (262273 / 256),
      gpu_memoryFree = Finite (1834879 / 256), gpu_load = Finite (1 / 4),
      gpu_temperature = Finite (131 / 2)\<rparr>"

text \<open>The same host with one source changed.\<close>

definition env_memory_raises :: env where
  "env_memory_raises =
     sample_env\<lparr>psutil_virtual_memory :=
       Inl (Exn ''PermissionError'' ''[Errno 13] Permission denied'')\<rparr>"

definition env_disk_raises :: env where
  "env_disk_raises =
     sample_env\<lparr>psutil_disk_usage :=
       (\<lambda>path. Inl (Exn ''FileNotFoundError'' ''[Errno 2] No such file or directory''))\<rparr>"

definition env_gpu :: env where
  "env_gpu = sample_env\<lparr>GPU_AVAILABLE := True, GPUtil_getGPUs := Inr [sample_gpu]\<rparr>"

definition env_gpu_none :: env where
  "env_gpu_none = sample_env\<lparr>GPU_AVAILABLE := True, GPUtil_getGPUs := Inr []\<rparr>"

definition env_gpu_raises :: env where
  "env_gpu_raises =
     sample_env\<lparr>GPU_AVAILABLE := True,
       GPUtil_getGPUs := Inl (Exn ''ValueError'' ''could not convert string to float'')\<rparr>"

definition env_no_cpu_count :: env where
  "env_no_cpu_count =
     sample_env\<lparr>psutil_cpu_count := (\<lambda>logical. Inr None), psutil_cpu_freq := Inr None\<rparr>"

definition env_cpuinfo :: env where
  "env_cpuinfo =
     sample_env\<lparr>CPUINFO_AVAILABLE := True,
       cpuinfo_get_cpu_info := Inr [(''brand_raw'', PyStr ''AMD Ryzen 7 5800X'')]\<rparr>"

definition env_cpuinfo_raises :: env where
  "env_cpuinfo_raises =
     sample_env\<lparr>CPUINFO_AVAILABLE := True,
       cpuinfo_get_cpu_info := Inl (Exn ''Exception'' ''cpuid failed''),
       platform_processor := Inr ''''\<rparr>"

text \<open>A root volume whose sizes are not whole hundredths of a GiB, and one of 8 PiB.\<close>

definition env_disk_rounds :: env where
  "env_disk_rounds =
     sample_env\<lparr>psutil_disk_usage :=
       (\<lambda>path. Inr \<lparr>sdiskusage_total = 499963174912, sdiskusage_used = 123456789012,
                    sdiskusage_free = 376506385900, sdiskusage_percent = Finite (99 / 4)\<rparr>)\<rparr>"

definition env_disk_huge :: env where
  "env_disk_huge =
     sample_env\<lparr>psutil_disk_usage :=
       (\<lambda>path. Inr \<lparr>sdiskusage_total = 9007199270847119, sdiskusage_used = 0,
                    sdiskusage_free = 9007199270847119, sdiskusage_percent = Finite 0\<rparr>)\<rparr>"

text \<open>\<^verbatim>\<open>cpuinfo\<close> installed, its result without \<^verbatim>\<open>brand_raw\<close>.\<close>

definition env_cpuinfo_no_brand :: env where
  "env_cpuinfo_no_brand =
     sample_env\<lparr>CPUINFO_AVAILABLE := True,
       cpuinfo_get_cpu_info := Inr [(''arch'', PyStr ''X86_64'')]\<rparr>"

section \<open>Evaluating the float arithmetic\<close>

text \<open>
  Rules that let the simplifier compute floors, ceilings and bit lengths of numerals, so
  that the definitions above run on concrete inputs.
\<close>

lemma floor_rat_numeral [simp]:
  "\<lfloor>(numeral a :: rat) / numeral b\<rfloor> = numeral a div numeral b"
  using floor_divide_of_int_eq [of "numeral a" "numeral b", where ?'a = rat] by simp

lemma floor_rat_neg_numeral [simp]:
  "\<lfloor>- ((numeral a :: rat) / numeral b)\<rfloor> = (- numeral a) div numeral b"
  using floor_divide_of_int_eq [of "- numeral a" "numeral b", where ?'a = rat] by simp

lemma floor_rat_one_numeral [simp]:
  "\<lfloor>(1 :: rat) / numeral b\<rfloor> = 1 div numeral b"
  using floor_divide_of_int_eq [of 1 "numeral b", where ?'a = rat] by simp

lemma ceiling_rat_numeral [simp]:
  "\<lceil>(numeral a :: rat) / numeral b\<rceil> = - ((- numeral a) div numeral b)"
  using floor_divide_of_int_eq [of "- numeral a" "numeral b", where ?'a = rat]
  by (simp add: ceiling_def)

lemma bit_length_numeral [simp]:
  "bit_length (numeral k) = Suc (bit_length (numeral k div 2))"
  "bit_length 0 = 0"
  "bit_length 1 = 1"
  "bit_length (Suc 0) = 1"
  by (simp_all add: bit_length.simps [of "numeral k"] bit_length.simps [of 0]
      bit_length.simps [of 1] bit_length.simps [of "Suc 0"])

lemmas float_eval =
  fl_def nearest_double_def binade_def Let_def pow2_def round_half_even_def
  round_to_decimals_def

section \<open>Division by \<open>1024 ^ 3\<close> is exact below \<open>2 ^ 53\<close>\<close>

lemma bit_length_le: "n < 2 ^ k \<Longrightarrow> bit_length n \<le> k"
proof (induction k arbitrary: n)
  case 0
  then show ?case by (simp add: bit_length.simps [of n])
next
  case (Suc k)
  show ?case
  proof (cases "n = 0")
    case True
    then show ?thesis by (simp add: bit_length.simps [of n])
  next
    case False
    from Suc.prems have "n div 2 < 2 ^ k" by simp
    then have "bit_length (n div 2) \<le> k" by (rule Suc.IH)
    with False show ?thesis by (simp add: bit_length.simps [of n])
  qed
qed

lemma binade_le:
  assumes "0 < q" and "q < 2 ^ Suc k"
  shows "binade q \<le> int k"
proof (cases "1 \<le> q")
  case True
  have "\<lfloor>q\<rfloor> < 2 ^ Suc k"
    using assms(2) by (simp add: floor_less_iff)
  then have "nat \<lfloor>q\<rfloor> < 2 ^ Suc k"
    using True by (simp add: nat_less_iff)
  then have "bit_length (nat \<lfloor>q\<rfloor>) \<le> Suc k" by (rule bit_length_le)
  with True show ?thesis by (simp add: binade_def)
next
  case False
  then show ?thesis by (simp add: binade_def)
qed

lemma pow2_neg: "pow2 (- int k) = 1 / 2 ^ k"
  by (cases "k = 0") (simp_all add: pow2_def)

lemma round_half_even_of_int [simp]: "round_half_even (of_int k) = k"
  by (simp add: round_half_even_def)

lemma nearest_double_exact:
  assumes "0 < n" and "n < 2 ^ 53"
  shows "nearest_double (of_int n / 2 ^ 30) = of_int n / 2 ^ 30"
proof -
  let ?q = "of_int n / 2 ^ 30 :: rat"
  have pos: "0 < ?q" using assms(1) by simp
  have "(of_int n :: rat) < 2 ^ 53"
    using assms(2) by (metis of_int_less_iff of_int_numeral of_int_power)
  then have "?q < 2 ^ 53 / 2 ^ 30" by (simp add: divide_strict_right_mono)
  then have "?q < 2 ^ Suc 22" by simp
  with pos have le: "binade ?q \<le> 22" using binade_le [of ?q 22] by simp
  define j where "j = nat (22 - max (binade ?q) (- 1022))"
  with le have j: "max (binade ?q) (- 1022) - 52 = - int (30 + j)"
    by simp
  have ulp: "pow2 (- int (30 + j)) = 1 / (2 ^ 30 * 2 ^ j)"
    by (simp only: pow2_neg power_add)
  have "?q / (1 / (2 ^ 30 * 2 ^ j)) = of_int (n * 2 ^ j)"
    by simp
  then have "round_half_even (?q / (1 / (2 ^ 30 * 2 ^ j))) = n * 2 ^ j"
    by (simp only: round_half_even_of_int)
  then have "of_int (round_half_even (?q / (1 / (2 ^ 30 * 2 ^ j)))) * (1 / (2 ^ 30 * 2 ^ j)) = ?q"
    by simp
  then show ?thesis
    using pos by (simp only: nearest_double_def Let_def j ulp) simp
qed

lemma fl_exact:
  assumes "0 \<le> n" and "n < 2 ^ 53"
  shows "fl (of_int n / 2 ^ 30) = Finite (of_int n / 2 ^ 30)"
proof (cases "n = 0")
  case True
  then show ?thesis by (simp add: fl_def nearest_double_def)
next
  case False
  with assms have n: "0 < n" by simp
  let ?q = "of_int n / 2 ^ 30 :: rat"
  have "(of_int n :: rat) < 2 ^ 53"
    using assms(2) by (metis of_int_less_iff of_int_numeral of_int_power)
  then have "?q < 2 ^ 53"
    by (simp add: pos_divide_less_eq)
  also have "(2::rat) ^ 53 < 2 ^ 1024" by (rule power_strict_increasing) simp_all
  finally have small: "\<not> 2 ^ 1024 \<le> ?q" by simp
  have "\<bar>?q\<bar> = ?q" using n by simp
  then show ?thesis
    using n small by (simp only: fl_def Let_def nearest_double_exact [OF n assms(2)]) simp
qed

lemma int_true_divide_gb:
  assumes "0 \<le> n" and "n < 2 ^ 53"
  shows "int_true_divide n (1024 ^ 3) = Inr (Finite (of_int n / 1024 ^ 3))"
proof -
  have "(1024::rat) ^ 3 = 2 ^ 30" by simp
  then have "fl (of_int n / of_int (1024 ^ 3)) = Finite (of_int n / 1024 ^ 3)"
    using fl_exact [OF assms] by simp
  then show ?thesis by (simp add: int_true_divide_def)
qed

lemma bytes_to_gb_small:
  assumes "0 \<le> n" and "n < 2 ^ 53"
  shows "bytes_to_gb n = Inr (fl (round_to_decimals 2 (of_int n / 1024 ^ 3)))"
  unfolding bytes_to_gb_def int_true_divide_gb [OF assms] by (simp add: bind_exn_def)

lemma bytes_to_gb_one_gb: "bytes_to_gb 1073741824 = Inr (Finite 1)"
  by (simp add: bytes_to_gb_def bind_exn_def int_true_divide_def float_eval)

lemma bytes_to_gb_zero: "bytes_to_gb 0 = Inr (Finite 0)"
  by (simp add: bytes_to_gb_def bind_exn_def int_true_divide_def float_eval)

section \<open>The byte conversion\<close>

text \<open>
  Claim C5, as the code has it. \<^verbatim>\<open>bytes_to_gb(1073741824)\<close> is \<open>1.0\<close>,
  \<^verbatim>\<open>bytes_to_gb(0)\<close> is \<open>0.0\<close>, and for every byte count \<open>n\<close> with \<open>0 \<le> n < 2 ^ 53\<close> the
  result is the exact quotient \<open>n / 1024 ^ 3\<close> rounded to two decimals (a tie going to the
  even digit), as the double nearest to that decimal. Below \<open>2 ^ 53\<close> the division is
  exact, so the quotient is rounded once.
\<close>

theorem bytes_to_gb_rounds:
  "bytes_to_gb 1073741824 = Inr (Finite 1) \<and>
   bytes_to_gb 0 = Inr (Finite 0) \<and>
   (\<forall>n. 0 \<le> n \<and> n < 2 ^ 53 \<longrightarrow>
      bytes_to_gb n = Inr (fl (round_to_decimals 2 (of_int n / 1024 ^ 3))))"
  using bytes_to_gb_one_gb bytes_to_gb_zero bytes_to_gb_small by blast

text \<open>
  At \<open>n = 2 ^ 27\<close> the quotient is \<open>0.125\<close>, a tie, and the result is the double
  nearest to \<open>0.12\<close>.
\<close>

theorem bytes_to_gb_rounds_witness:
  "(0::int) \<le> 134217728 \<and> (134217728::int) < 2 ^ 53 \<and>
   bytes_to_gb 134217728 = Inr (Finite (1080863910568919 / 9007199254740992))"
proof -
  have "bytes_to_gb 134217728 = Inr (fl (round_to_decimals 2 (of_int 134217728 / 1024 ^ 3)))"
    using bytes_to_gb_rounds by simp
  then show ?thesis by (simp add: float_eval)
qed

text \<open>
  From \<open>2 ^ 53\<close> on the division rounds the quotient to a double before \<^verbatim>\<open>round\<close> sees
  it. At \<open>n = 9007199270847119\<close> the exact quotient is \<open>8388608.01499999966...\<close>, which
  rounds to \<open>8388608.01\<close>; the division gives the double \<open>8388608.01500000059...\<close>, and the
  code returns \<open>8388608.02\<close>.
\<close>

theorem bytes_to_gb_double_rounding:
  "bytes_to_gb 9007199270847119 = Inr (Finite (2251799819053957 / 268435456)) \<and>
   fl (round_to_decimals 2 (of_int 9007199270847119 / 1024 ^ 3)) =
     Finite (4503599632739205 / 536870912) \<and>
   bytes_to_gb 9007199270847119 \<noteq>
     Inr (fl (round_to_decimals 2 (of_int 9007199270847119 / 1024 ^ 3)))"
  by (simp add: bytes_to_gb_def bind_exn_def int_true_divide_def float_eval)

section \<open>Every machine counter converts\<close>

text \<open>
  The division raises \<^verbatim>\<open>OverflowError\<close> only when the quotient is beyond the doubles. A
  byte count below \<open>2 ^ 1024\<close> in magnitude is far from that, so \<^verbatim>\<open>bytes_to_gb\<close>
  returns on every counter an operating system reports.
\<close>

lemma pow2_pos: "0 < pow2 e"
  by (simp add: pow2_def)

lemma pow2_le: "e \<le> int k \<Longrightarrow> pow2 e \<le> 2 ^ k"
proof (cases "0 \<le> e")
  case True
  assume "e \<le> int k"
  with True have "nat e \<le> k" by simp
  then have "(2::rat) ^ nat e \<le> 2 ^ k" by (rule power_increasing) simp
  with True show ?thesis by (simp add: pow2_def)
next
  case False
  have "1 / 2 ^ nat (- e) \<le> (1::rat)" by (simp add: divide_le_eq)
  also have "(1::rat) \<le> 2 ^ k" by simp
  finally show ?thesis using False by (simp add: pow2_def)
qed

lemma round_half_even_le: "of_int (round_half_even x) \<le> x + 1 / 2"
proof -
  have "of_int \<lfloor>x\<rfloor> \<le> x" by simp
  then show ?thesis
    unfolding round_half_even_def Let_def by (simp split: if_splits; linarith)
qed

lemma nearest_double_bound:
  assumes "0 \<le> q" and "q < 2 ^ 994"
  shows "nearest_double q < 2 ^ 1024"
proof (cases "q = 0")
  case True
  then show ?thesis by (simp add: nearest_double_def)
next
  case False
  with assms have pos: "0 < q" by simp
  define ulp where "ulp = pow2 (max (binade q) (- 1022) - 52)"
  have "q < 2 ^ Suc 993" using assms(2) by simp
  with pos have "binade q \<le> 993" using binade_le [of q 993] by simp
  then have "max (binade q) (- 1022) - 52 \<le> int 941" by simp
  then have ulp_le: "ulp \<le> 2 ^ 941" unfolding ulp_def by (rule pow2_le)
  have ulp_pos: "0 < ulp" unfolding ulp_def by (rule pow2_pos)
  have "of_int (round_half_even (q / ulp)) * ulp \<le> (q / ulp + 1 / 2) * ulp"
    using round_half_even_le [of "q / ulp"] ulp_pos by (simp only: mult_le_cancel_right_pos)
  also have "\<dots> = q + ulp / 2" using ulp_pos by (simp add: field_simps)
  also have "\<dots> < 2 ^ 994 + 2 ^ 941" using assms(2) ulp_le by simp
  also have "\<dots> < (2::rat) ^ 1024" by simp
  finally show ?thesis
    using False by (simp add: nearest_double_def Let_def ulp_def)
qed

lemma fl_finite:
  assumes "\<bar>q\<bar> < 2 ^ 994"
  shows "\<exists>x. fl q = Finite x"
  using nearest_double_bound [of "\<bar>q\<bar>"] assms by (simp add: fl_def Let_def)

lemma bytes_to_gb_returns:
  assumes "\<bar>n\<bar> < 2 ^ 1024"
  shows "\<exists>x. bytes_to_gb n = Inr x"
proof -
  have "\<bar>of_int n :: rat\<bar> < 2 ^ 1024"
    using assms by (metis of_int_abs of_int_less_iff of_int_numeral of_int_power)
  then have "\<bar>of_int n / of_int (1024 ^ 3) :: rat\<bar> < 2 ^ 994"
    by (simp add: abs_divide pos_divide_less_eq)
  then obtain x where "fl (of_int n / of_int (1024 ^ 3)) = Finite x"
    using fl_finite by blast
  then show ?thesis
    by (simp add: bytes_to_gb_def bind_exn_def int_true_divide_def)
qed

text \<open>What it returns: the quotient as a double, rounded to two decimals.\<close>

lemma bytes_to_gb_fl:
  assumes "\<bar>n\<bar> < 2 ^ 1024"
  shows "\<exists>x. fl (of_int n / 1024 ^ 3) = Finite x \<and>
           bytes_to_gb n = Inr (fl (round_to_decimals 2 x))"
proof -
  have "\<bar>of_int n :: rat\<bar> < 2 ^ 1024"
    using assms by (metis of_int_abs of_int_less_iff of_int_numeral of_int_power)
  then have "\<bar>of_int n / 1024 ^ 3 :: rat\<bar> < 2 ^ 994"
    by (simp add: abs_divide pos_divide_less_eq)
  then obtain x where x: "fl (of_int n / 1024 ^ 3) = Finite x"
    using fl_finite by blast
  then have "fl (of_int n / of_int (1024 ^ 3)) = Finite x" by simp
  then have "bytes_to_gb n = Inr (fl (round_to_decimals 2 x))"
    by (simp add: bytes_to_gb_def bind_exn_def int_true_divide_def)
  with x show ?thesis by blast
qed

text \<open>Beyond the doubles the division raises.\<close>

lemma bytes_to_gb_overflow:
  "bytes_to_gb (2 ^ 1100) =
     Inl (Exn ''OverflowError'' ''integer division result too large for a float'')"
  by (simp add: bytes_to_gb_def bind_exn_def int_true_divide_def float_eval)

section \<open>What the float arithmetic computes\<close>

text \<open>
  The rounding to two decimals gives a multiple of \<open>1 / 100\<close> within \<open>1 / 200\<close> of its
  argument; \<open>binade\<close> is the binary exponent; \<open>nearest_double\<close> is within half a unit in
  the last place of its argument.
\<close>

lemma round_half_even_ge: "x - 1 / 2 \<le> of_int (round_half_even x)"
proof -
  have "x < of_int \<lfloor>x\<rfloor> + 1" by linarith
  then show ?thesis
    unfolding round_half_even_def Let_def by (simp split: if_splits; linarith)
qed

lemma round_to_decimals_near: "\<bar>round_to_decimals 2 q - q\<bar> \<le> 1 / 200"
proof -
  have "\<bar>of_int (round_half_even (q * 100)) - q * 100\<bar> \<le> 1 / 2"
    using round_half_even_le [of "q * 100"] round_half_even_ge [of "q * 100"] by linarith
  then show ?thesis
    by (simp add: round_to_decimals_def field_simps abs_le_iff)
qed

lemma round_to_decimals_hundredths: "\<exists>k::int. round_to_decimals 2 q = of_int k / 100"
  by (auto simp add: round_to_decimals_def)

lemma bit_length_ge: "0 < n \<Longrightarrow> 2 ^ (bit_length n - 1) \<le> n"
proof (induction n rule: bit_length.induct)
  case (1 n)
  show ?case
  proof (cases "n div 2 = 0")
    case True
    with "1.prems" have "n = 1" by (simp add: div_eq_0_iff)
    then show ?thesis by (simp add: bit_length.simps [of 1] bit_length.simps [of 0])
  next
    case False
    then have pos: "0 < n div 2" by simp
    with "1.IH" "1.prems" have ih: "2 ^ (bit_length (n div 2) - 1) \<le> n div 2" by simp
    have bl: "bit_length n = Suc (bit_length (n div 2))"
      using "1.prems" by (simp add: bit_length.simps [of n])
    have "0 < bit_length (n div 2)" using pos by (simp add: bit_length.simps [of "n div 2"])
    then have "(2::nat) ^ (bit_length n - 1) = 2 * 2 ^ (bit_length (n div 2) - 1)"
      using bl by (cases "bit_length (n div 2)") simp_all
    also have "\<dots> \<le> 2 * (n div 2)" using ih by simp
    also have "\<dots> \<le> n" by simp
    finally show ?thesis .
  qed
qed

lemma bit_length_gt: "n < 2 ^ bit_length n"
proof (induction n rule: bit_length.induct)
  case (1 n)
  show ?case
  proof (cases "n = 0")
    case True
    then show ?thesis by simp
  next
    case False
    with "1.IH" have "n div 2 < 2 ^ bit_length (n div 2)" .
    then have "n < 2 * 2 ^ bit_length (n div 2)" by linarith
    with False show ?thesis by (simp add: bit_length.simps [of n])
  qed
qed

lemma pow2_nat: "pow2 (int k) = 2 ^ k"
  by (simp add: pow2_def)

lemma of_nat_pow2_le: "2 ^ k \<le> n \<Longrightarrow> (2::rat) ^ k \<le> of_nat n"
proof -
  assume "2 ^ k \<le> n"
  then have "(of_nat (2 ^ k) :: rat) \<le> of_nat n" by (simp only: of_nat_le_iff)
  then show ?thesis by simp
qed

lemma of_nat_lt_pow2: "n < 2 ^ k \<Longrightarrow> (of_nat n :: rat) + 1 \<le> 2 ^ k"
proof -
  assume "n < 2 ^ k"
  then have "Suc n \<le> 2 ^ k" by simp
  then have "(of_nat (Suc n) :: rat) \<le> of_nat (2 ^ k)" by (simp only: of_nat_le_iff)
  then show ?thesis by simp
qed

lemma binade_bounds:
  assumes "0 < q"
  shows "pow2 (binade q) \<le> q \<and> q < pow2 (binade q + 1)"
proof (cases "1 \<le> q")
  case True
  define N where "N = nat \<lfloor>q\<rfloor>"
  have N: "0 < N" "of_nat N \<le> q" "q < of_nat N + 1"
    using True by (simp_all add: N_def) linarith+
  from N(1) obtain k where k: "bit_length N = Suc k"
    by (simp add: bit_length.simps [of N])
  have e: "binade q = int k"
    using True k by (simp add: binade_def N_def)
  have "2 ^ k \<le> N" using bit_length_ge [OF N(1)] k by simp
  then have "(2::rat) ^ k \<le> of_nat N" by (rule of_nat_pow2_le)
  with N(2) have lo: "(2::rat) ^ k \<le> q" by linarith
  have "N < 2 ^ Suc k" using bit_length_gt [of N] k by simp
  then have "(of_nat N :: rat) + 1 \<le> 2 ^ Suc k" by (rule of_nat_lt_pow2)
  with N(3) have hi: "q < 2 ^ Suc k" by linarith
  have "pow2 (binade q) = 2 ^ k" unfolding e by (rule pow2_nat)
  moreover have "pow2 (binade q + 1) = 2 ^ Suc k"
  proof -
    have "binade q + 1 = int (Suc k)" using e by simp
    then show ?thesis by (simp only: pow2_nat)
  qed
  ultimately show ?thesis using lo hi by simp
next
  case False
  define M where "M = nat (\<lceil>1 / q\<rceil> - 1)"
  have y: "1 < 1 / q" using assms False by simp
  then have c: "2 \<le> \<lceil>1 / q\<rceil>" by linarith
  then have M: "0 < M" by (simp add: M_def)
  from c have "0 \<le> \<lceil>1 / q\<rceil> - 1" by linarith
  then have "of_nat M = (of_int (\<lceil>1 / q\<rceil> - 1) :: rat)"
    unfolding M_def by (rule of_nat_nat)
  then have Mlt: "of_nat M < 1 / q" and Mge: "1 / q \<le> of_nat M + 1"
    by (simp_all, linarith+)
  from M obtain k where k: "bit_length M = Suc k"
    by (simp add: bit_length.simps [of M])
  have e: "binade q = - int (Suc k)"
    using False k by (simp add: binade_def M_def)
  have "2 ^ k \<le> M" using bit_length_ge [OF M] k by simp
  then have "(2::rat) ^ k \<le> of_nat M" by (rule of_nat_pow2_le)
  with Mlt have "(2::rat) ^ k < 1 / q" by linarith
  then have "q * 2 ^ k < 1"
    using assms by (simp add: field_simps)
  then have hi: "q < 1 / 2 ^ k" by (simp add: field_simps)
  have "M < 2 ^ Suc k" using bit_length_gt [of M] k by simp
  then have "(of_nat M :: rat) + 1 \<le> 2 ^ Suc k" by (rule of_nat_lt_pow2)
  with Mge have "1 / q \<le> 2 ^ Suc k" by linarith
  then have "1 \<le> q * 2 ^ Suc k" using assms by (simp add: field_simps)
  then have lo: "1 / 2 ^ Suc k \<le> q" by (simp add: field_simps)
  have "pow2 (binade q) = 1 / 2 ^ Suc k" unfolding e by (rule pow2_neg)
  moreover have "pow2 (binade q + 1) = 1 / 2 ^ k"
  proof -
    have "binade q + 1 = - int k" using e by simp
    then show ?thesis by (simp only: pow2_neg)
  qed
  ultimately show ?thesis using lo hi by simp
qed

lemma nearest_double_error:
  "\<bar>nearest_double q - q\<bar> \<le> pow2 (max (binade q) (- 1022) - 52) / 2"
proof (cases "q = 0")
  case True
  then show ?thesis using pow2_pos [of "max (binade q) (- 1022) - 52"] by (simp add: nearest_double_def)
next
  case False
  define ulp where "ulp = pow2 (max (binade q) (- 1022) - 52)"
  have ulp_pos: "0 < ulp" unfolding ulp_def by (rule pow2_pos)
  have "\<bar>of_int (round_half_even (q / ulp)) - q / ulp\<bar> \<le> 1 / 2"
    using round_half_even_le [of "q / ulp"] round_half_even_ge [of "q / ulp"] by linarith
  then have "\<bar>of_int (round_half_even (q / ulp)) - q / ulp\<bar> * ulp \<le> 1 / 2 * ulp"
    using ulp_pos by (simp only: mult_le_cancel_right_pos)
  moreover have "\<bar>of_int (round_half_even (q / ulp)) - q / ulp\<bar> * ulp =
      \<bar>of_int (round_half_even (q / ulp)) * ulp - q\<bar>"
    using ulp_pos by (simp add: abs_mult_pos' [symmetric] field_simps del: abs_mult_pos')
  ultimately show ?thesis using False by (simp add: nearest_double_def Let_def ulp_def)
qed

section \<open>The sub-queries\<close>

lemmas query_defs =
  bind_exn_def try_except_def platform_processor_name_def Let_def dict_get_def str_or_def
  cpu_count_value_def

lemmas sample_eval =
  sample_env_def sample_gpu_def get_sysinfo_def get_system_info_def get_cpu_info_def
  get_memory_info_def get_disk_info_def get_gpu_info_def root_path_def gpu_entry_def
  bytes_to_gb_def int_true_divide_def dict_keys_def dict_item_def query_defs float_eval

lemmas env_eval =
  env_memory_raises_def env_disk_raises_def env_gpu_def env_gpu_none_def env_gpu_raises_def
  env_no_cpu_count_def env_cpuinfo_def env_cpuinfo_raises_def env_disk_rounds_def
  env_disk_huge_def env_cpuinfo_no_brand_def sample_eval

lemma map_of_dict_setitem: "map_of (dict_setitem d k v) = (map_of d)(k \<mapsto> v)"
  by (induction d) auto

subsection \<open>The GPU\<close>

text \<open>
  Claim C3. When \<^verbatim>\<open>GPU_AVAILABLE\<close> is false, \<^verbatim>\<open>get_gpu_info\<close> returns exactly the record
  \<^verbatim>\<open>{"status": "GPUtil not installed or no NVIDIA GPU detected"}\<close>, and not a list.
\<close>

theorem get_gpu_info_unavailable:
  "\<not> GPU_AVAILABLE env \<Longrightarrow>
   get_gpu_info env =
     Inr (PyDict [(''status'', PyStr ''GPUtil not installed or no NVIDIA GPU detected'')]) \<and>
   (\<forall>entries. get_gpu_info env \<noteq> Inr (PyList entries))"
  by (simp add: get_gpu_info_def)

theorem get_gpu_info_unavailable_witness:
  "\<not> GPU_AVAILABLE sample_env \<and>
   get_gpu_info sample_env =
     Inr (PyDict [(''status'', PyStr ''GPUtil not installed or no NVIDIA GPU detected'')])"
proof -
  have h: "\<not> GPU_AVAILABLE sample_env" by (simp add: sample_env_def)
  with get_gpu_info_unavailable [OF h] show ?thesis by simp
qed

text \<open>
  Claim C4. With \<^verbatim>\<open>GPUtil\<close> present, an enumeration that finds no device gives the status
  record \<^verbatim>\<open>{"status": "No NVIDIA GPU detected"}\<close>, not an empty list, and an enumeration
  that raises \<open>e\<close> gives the status record with the text
  \<^verbatim>\<open>"Error getting GPU info: " + str(e)\<close>; the exception does not leave the function.
\<close>

theorem get_gpu_info_degraded:
  "GPU_AVAILABLE env \<Longrightarrow>
   (GPUtil_getGPUs env = Inr [] \<longrightarrow>
      get_gpu_info env = Inr (PyDict [(''status'', PyStr ''No NVIDIA GPU detected'')])) \<and>
   (\<forall>e. GPUtil_getGPUs env = Inl e \<longrightarrow>
      get_gpu_info env =
        Inr (PyDict [(''status'', PyStr (''Error getting GPU info: '' @ str e))]))"
  by (simp add: get_gpu_info_def bind_exn_def try_except_def)

theorem get_gpu_info_degraded_witness:
  "get_gpu_info env_gpu_none = Inr (PyDict [(''status'', PyStr ''No NVIDIA GPU detected'')]) \<and>
   get_gpu_info env_gpu_raises =
     Inr (PyDict
       [(''status'', PyStr ''Error getting GPU info: could not convert string to float'')])"
proof -
  have a: "GPU_AVAILABLE env_gpu_none" "GPUtil_getGPUs env_gpu_none = Inr []"
    by (simp_all add: env_gpu_none_def)
  have b: "GPU_AVAILABLE env_gpu_raises"
    "GPUtil_getGPUs env_gpu_raises = Inl (Exn ''ValueError'' ''could not convert string to float'')"
    by (simp_all add: env_gpu_raises_def)
  show ?thesis
    using get_gpu_info_degraded [OF a(1)] a(2) get_gpu_info_degraded [OF b(1)] b(2) by simp
qed

lemma gpu_loop_map: "gpu_loop gpus gpu_list = gpu_list @ map gpu_entry gpus"
  by (induction gpus arbitrary: gpu_list) simp_all

lemma get_gpu_info_devices:
  "GPU_AVAILABLE env \<Longrightarrow> GPUtil_getGPUs env = Inr gpus \<Longrightarrow> gpus \<noteq> [] \<Longrightarrow>
   get_gpu_info env = Inr (PyList (map gpu_entry gpus))"
  by (simp add: get_gpu_info_def bind_exn_def try_except_def gpu_loop_map)

text \<open>
  Claim C7. When the enumeration returns devices, \<^verbatim>\<open>get_gpu_info\<close> returns one entry for
  each, in order, and in the entry of a device \<^verbatim>\<open>memory_total_mb\<close>, \<^verbatim>\<open>memory_used_mb\<close>
  and \<^verbatim>\<open>memory_free_mb\<close> are the source's values rounded to two decimals,
  \<^verbatim>\<open>gpu_utilization_percent\<close> is the source's load times 100, and \<^verbatim>\<open>temperature_c\<close> is
  the source's temperature as it is.
\<close>

theorem get_gpu_info_entries:
  assumes "GPU_AVAILABLE env" and "GPUtil_getGPUs env = Inr gpus" and "gpus \<noteq> []"
  shows "\<exists>entries. get_gpu_info env = Inr (PyList entries) \<and>
           length entries = length gpus \<and>
           (\<forall>i<length gpus.
              dict_item (entries ! i) ''memory_total_mb'' =
                Some (PyFloat (py_round (gpu_memoryTotal (gpus ! i)) 2)) \<and>
              dict_item (entries ! i) ''memory_used_mb'' =
                Some (PyFloat (py_round (gpu_memoryUsed (gpus ! i)) 2)) \<and>
              dict_item (entries ! i) ''memory_free_mb'' =
                Some (PyFloat (py_round (gpu_memoryFree (gpus ! i)) 2)) \<and>
              dict_item (entries ! i) ''gpu_utilization_percent'' =
                Some (PyFloat (float_mul (gpu_load (gpus ! i)) (Finite 100))) \<and>
              dict_item (entries ! i) ''temperature_c'' =
                Some (PyFloat (gpu_temperature (gpus ! i))))"
proof -
  have "get_gpu_info env = Inr (PyList (map gpu_entry gpus))"
    using assms by (rule get_gpu_info_devices)
  then show ?thesis by (simp add: dict_item_def gpu_entry_def)
qed

text \<open>
  The sample device: \<open>1024.50390625\<close> becomes \<open>1024.5\<close>, \<open>7167.49609375\<close> becomes
  \<open>7167.5\<close>, the load \<open>0.25\<close> becomes \<open>25.0\<close>, the temperature \<open>65.5\<close> stays.
\<close>

theorem get_gpu_info_entries_witness:
  "get_gpu_info env_gpu =
     Inr (PyList
       [PyDict
          [(''id'', PyInt 0),
           (''name'', PyStr ''NVIDIA GeForce RTX 3070''),
           (''memory_total_mb'', PyFloat (Finite 8192)),
           (''memory_used_mb'', PyFloat (Finite (2049 / 2))),
           (''memory_free_mb'', PyFloat (Finite (14335 / 2))),
           (''gpu_utilization_percent'', PyFloat (Finite 25)),
           (''temperature_c'', PyFloat (Finite (131 / 2)))]])"
proof -
  have h: "GPU_AVAILABLE env_gpu" "GPUtil_getGPUs env_gpu = Inr [sample_gpu]" "[sample_gpu] \<noteq> []"
    by (simp_all add: env_gpu_def)
  from get_gpu_info_entries [OF h] obtain entries where
    "get_gpu_info env_gpu = Inr (PyList entries)" by blast
  then show ?thesis by (simp add: env_eval)
qed

lemma get_gpu_info_shape:
  "\<exists>gpu. get_gpu_info env = Inr gpu \<and>
     (dict_keys gpu = [''status''] \<or> (\<exists>entries. gpu = PyList entries))"
  by (simp add: get_gpu_info_def try_except_def bind_exn_def dict_keys_def split: sum.splits)

subsection \<open>The disk\<close>

lemma get_disk_info_returns: "\<exists>disk. get_disk_info env = Inr disk"
  by (simp add: get_disk_info_def try_except_def split: sum.splits)

lemma get_disk_info_error:
  "platform_system env = Inr system \<Longrightarrow> psutil_disk_usage env (root_path system) = Inl e \<Longrightarrow>
   get_disk_info env = Inr (PyDict [(''error'', PyStr (str e))])"
  by (simp add: get_disk_info_def try_except_def bind_exn_def)

lemma get_disk_info_usage:
  assumes "platform_system env = Inr system"
    and "psutil_disk_usage env (root_path system) = Inr disk"
    and "\<bar>sdiskusage_total disk\<bar> < 2 ^ 1024"
    and "\<bar>sdiskusage_used disk\<bar> < 2 ^ 1024"
    and "\<bar>sdiskusage_free disk\<bar> < 2 ^ 1024"
  shows "\<exists>total used free.
           fl (of_int (sdiskusage_total disk) / 1024 ^ 3) = Finite total \<and>
           fl (of_int (sdiskusage_used disk) / 1024 ^ 3) = Finite used \<and>
           fl (of_int (sdiskusage_free disk) / 1024 ^ 3) = Finite free \<and>
           get_disk_info env =
             Inr (PyDict
               [(''total_gb'', PyFloat (fl (round_to_decimals 2 total))),
                (''used_gb'', PyFloat (fl (round_to_decimals 2 used))),
                (''free_gb'', PyFloat (fl (round_to_decimals 2 free))),
                (''utilization_percent'', PyFloat (sdiskusage_percent disk))])"
proof -
  obtain t where t: "fl (of_int (sdiskusage_total disk) / 1024 ^ 3) = Finite t"
    "bytes_to_gb (sdiskusage_total disk) = Inr (fl (round_to_decimals 2 t))"
    using bytes_to_gb_fl [OF assms(3)] by blast
  obtain u where u: "fl (of_int (sdiskusage_used disk) / 1024 ^ 3) = Finite u"
    "bytes_to_gb (sdiskusage_used disk) = Inr (fl (round_to_decimals 2 u))"
    using bytes_to_gb_fl [OF assms(4)] by blast
  obtain f where f: "fl (of_int (sdiskusage_free disk) / 1024 ^ 3) = Finite f"
    "bytes_to_gb (sdiskusage_free disk) = Inr (fl (round_to_decimals 2 f))"
    using bytes_to_gb_fl [OF assms(5)] by blast
  have "get_disk_info env =
          Inr (PyDict
            [(''total_gb'', PyFloat (fl (round_to_decimals 2 t))),
             (''used_gb'', PyFloat (fl (round_to_decimals 2 u))),
             (''free_gb'', PyFloat (fl (round_to_decimals 2 f))),
             (''utilization_percent'', PyFloat (sdiskusage_percent disk))])"
    using assms(1,2) t(2) u(2) f(2)
    by (simp add: get_disk_info_def try_except_def bind_exn_def)
  with t(1) u(1) f(1) show ?thesis by blast
qed

lemma get_disk_info_exact:
  assumes "platform_system env = Inr system"
    and "psutil_disk_usage env (root_path system) = Inr disk"
    and "0 \<le> sdiskusage_total disk" and "sdiskusage_total disk < 2 ^ 53"
    and "0 \<le> sdiskusage_used disk" and "sdiskusage_used disk < 2 ^ 53"
    and "0 \<le> sdiskusage_free disk" and "sdiskusage_free disk < 2 ^ 53"
  shows "get_disk_info env =
           Inr (PyDict
             [(''total_gb'',
                 PyFloat (fl (round_to_decimals 2 (of_int (sdiskusage_total disk) / 1024 ^ 3)))),
              (''used_gb'',
                 PyFloat (fl (round_to_decimals 2 (of_int (sdiskusage_used disk) / 1024 ^ 3)))),
              (''free_gb'',
                 PyFloat (fl (round_to_decimals 2 (of_int (sdiskusage_free disk) / 1024 ^ 3)))),
              (''utilization_percent'', PyFloat (sdiskusage_percent disk))])"
  using assms(1,2) bytes_to_gb_small [OF assms(3,4)] bytes_to_gb_small [OF assms(5,6)]
    bytes_to_gb_small [OF assms(7,8)]
  by (simp add: get_disk_info_def try_except_def bind_exn_def)

lemma get_disk_info_shape:
  "\<exists>disk. get_disk_info env = Inr disk \<and>
     (dict_keys disk = [''error''] \<or>
      dict_keys disk = [''total_gb'', ''used_gb'', ''free_gb'', ''utilization_percent''])"
  by (simp add: get_disk_info_def try_except_def bind_exn_def dict_keys_def split: sum.splits)

text \<open>
  Claim C2, as the code has it. \<^verbatim>\<open>get_disk_info\<close> returns in every environment. When
  the disk-usage call on the root path raises \<open>e\<close>, the result is exactly
  \<^verbatim>\<open>{"error": str(e)}\<close>, with no numeric field. When the call returns (its byte counts
  being machine counters, below \<open>2 ^ 1024\<close> in magnitude), the result is the four fields
  \<^verbatim>\<open>total_gb\<close>, \<^verbatim>\<open>used_gb\<close>, \<^verbatim>\<open>free_gb\<close> and \<^verbatim>\<open>utilization_percent\<close>, each size being the
  byte count divided by \<open>1024 ^ 3\<close> in double precision and then rounded to two decimals.
  For byte counts from \<open>0\<close> to below \<open>2 ^ 53\<close> the division is exact, and each size is the
  exact quotient rounded to two decimals.
\<close>

theorem get_disk_info_contract:
  "(\<exists>disk. get_disk_info env = Inr disk) \<and>
   (\<forall>system e.
      platform_system env = Inr system \<and> psutil_disk_usage env (root_path system) = Inl e \<longrightarrow>
      get_disk_info env = Inr (PyDict [(''error'', PyStr (str e))])) \<and>
   (\<forall>system disk.
      platform_system env = Inr system \<and> psutil_disk_usage env (root_path system) = Inr disk \<and>
      \<bar>sdiskusage_total disk\<bar> < 2 ^ 1024 \<and> \<bar>sdiskusage_used disk\<bar> < 2 ^ 1024 \<and>
      \<bar>sdiskusage_free disk\<bar> < 2 ^ 1024 \<longrightarrow>
      (\<exists>total used free.
         fl (of_int (sdiskusage_total disk) / 1024 ^ 3) = Finite total \<and>
         fl (of_int (sdiskusage_used disk) / 1024 ^ 3) = Finite used \<and>
         fl (of_int (sdiskusage_free disk) / 1024 ^ 3) = Finite free \<and>
         get_disk_info env =
           Inr (PyDict
             [(''total_gb'', PyFloat (fl (round_to_decimals 2 total))),
              (''used_gb'', PyFloat (fl (round_to_decimals 2 used))),
              (''free_gb'', PyFloat (fl (round_to_decimals 2 free))),
              (''utilization_percent'', PyFloat (sdiskusage_percent disk))]))) \<and>
   (\<forall>system disk.
      platform_system env = Inr system \<and> psutil_disk_usage env (root_path system) = Inr disk \<and>
      0 \<le> sdiskusage_total disk \<and> sdiskusage_total disk < 2 ^ 53 \<and>
      0 \<le> sdiskusage_used disk \<and> sdiskusage_used disk < 2 ^ 53 \<and>
      0 \<le> sdiskusage_free disk \<and> sdiskusage_free disk < 2 ^ 53 \<longrightarrow>
      get_disk_info env =
        Inr (PyDict
          [(''total_gb'',
              PyFloat (fl (round_to_decimals 2 (of_int (sdiskusage_total disk) / 1024 ^ 3)))),
           (''used_gb'',
              PyFloat (fl (round_to_decimals 2 (of_int (sdiskusage_used disk) / 1024 ^ 3)))),
           (''free_gb'',
              PyFloat (fl (round_to_decimals 2 (of_int (sdiskusage_free disk) / 1024 ^ 3)))),
           (''utilization_percent'', PyFloat (sdiskusage_percent disk))]))"
proof (intro conjI allI impI)
  show "\<exists>disk. get_disk_info env = Inr disk" by (rule get_disk_info_returns)
next
  fix system e
  assume "platform_system env = Inr system \<and> psutil_disk_usage env (root_path system) = Inl e"
  then show "get_disk_info env = Inr (PyDict [(''error'', PyStr (str e))])"
    using get_disk_info_error by blast
next
  fix system disk
  assume "platform_system env = Inr system \<and> psutil_disk_usage env (root_path system) = Inr disk \<and>
      \<bar>sdiskusage_total disk\<bar> < 2 ^ 1024 \<and> \<bar>sdiskusage_used disk\<bar> < 2 ^ 1024 \<and>
      \<bar>sdiskusage_free disk\<bar> < 2 ^ 1024"
  then show "\<exists>total used free.
         fl (of_int (sdiskusage_total disk) / 1024 ^ 3) = Finite total \<and>
         fl (of_int (sdiskusage_used disk) / 1024 ^ 3) = Finite used \<and>
         fl (of_int (sdiskusage_free disk) / 1024 ^ 3) = Finite free \<and>
         get_disk_info env =
           Inr (PyDict
             [(''total_gb'', PyFloat (fl (round_to_decimals 2 total))),
              (''used_gb'', PyFloat (fl (round_to_decimals 2 used))),
              (''free_gb'', PyFloat (fl (round_to_decimals 2 free))),
              (''utilization_percent'', PyFloat (sdiskusage_percent disk))])"
    using get_disk_info_usage [of env system disk] by blast
next
  fix system disk
  assume "platform_system env = Inr system \<and> psutil_disk_usage env (root_path system) = Inr disk \<and>
      0 \<le> sdiskusage_total disk \<and> sdiskusage_total disk < 2 ^ 53 \<and>
      0 \<le> sdiskusage_used disk \<and> sdiskusage_used disk < 2 ^ 53 \<and>
      0 \<le> sdiskusage_free disk \<and> sdiskusage_free disk < 2 ^ 53"
  then show "get_disk_info env =
        Inr (PyDict
          [(''total_gb'',
              PyFloat (fl (round_to_decimals 2 (of_int (sdiskusage_total disk) / 1024 ^ 3)))),
           (''used_gb'',
              PyFloat (fl (round_to_decimals 2 (of_int (sdiskusage_used disk) / 1024 ^ 3)))),
           (''free_gb'',
              PyFloat (fl (round_to_decimals 2 (of_int (sdiskusage_free disk) / 1024 ^ 3)))),
           (''utilization_percent'', PyFloat (sdiskusage_percent disk))])"
    using get_disk_info_exact [of env system disk] by blast
qed

text \<open>
  The volume that cannot be read, and a volume of \<open>499963174912\<close> bytes with
  \<open>123456789012\<close> used and \<open>376506385900\<close> free: the sizes are the doubles nearest to
  \<open>465.63\<close>, \<open>114.98\<close> and \<open>350.65\<close>.
\<close>

theorem get_disk_info_contract_witness:
  "get_disk_info env_disk_raises =
     Inr (PyDict [(''error'', PyStr ''[Errno 2] No such file or directory'')]) \<and>
   get_disk_info env_disk_rounds =
     Inr (PyDict
       [(''total_gb'', PyFloat (Finite (4095724793930711 / 8796093022208))),
        (''used_gb'', PyFloat (Finite (8090998205547807 / 70368744177664))),
        (''free_gb'', PyFloat (Finite (3084350018237235 / 8796093022208))),
        (''utilization_percent'', PyFloat (Finite (99 / 4)))]) \<and>
   round_to_decimals 2 (499963174912 / 1024 ^ 3) = 46563 / 100 \<and>
   round_to_decimals 2 (123456789012 / 1024 ^ 3) = 11498 / 100 \<and>
   round_to_decimals 2 (376506385900 / 1024 ^ 3) = 35065 / 100"
proof -
  have sys1: "platform_system env_disk_raises = Inr ''Linux''"
    and use1: "psutil_disk_usage env_disk_raises (root_path ''Linux'') =
      Inl (Exn ''FileNotFoundError'' ''[Errno 2] No such file or directory'')"
    by (simp_all add: env_disk_raises_def sample_env_def)
  have sys2: "platform_system env_disk_rounds = Inr ''Linux''"
    and use2: "psutil_disk_usage env_disk_rounds (root_path ''Linux'') =
      Inr \<lparr>sdiskusage_total = 499963174912, sdiskusage_used = 123456789012,
           sdiskusage_free = 376506385900, sdiskusage_percent = Finite (99 / 4)\<rparr>"
    by (simp_all add: env_disk_rounds_def sample_env_def)
  from get_disk_info_contract [of env_disk_raises] sys1 use1
  have a: "get_disk_info env_disk_raises =
      Inr (PyDict [(''error'', PyStr ''[Errno 2] No such file or directory'')])"
    by fastforce
  from get_disk_info_contract [of env_disk_rounds] sys2 use2
  have b: "get_disk_info env_disk_rounds =
      Inr (PyDict
        [(''total_gb'', PyFloat (fl (round_to_decimals 2 (of_int 499963174912 / 1024 ^ 3)))),
         (''used_gb'', PyFloat (fl (round_to_decimals 2 (of_int 123456789012 / 1024 ^ 3)))),
         (''free_gb'', PyFloat (fl (round_to_decimals 2 (of_int 376506385900 / 1024 ^ 3)))),
         (''utilization_percent'', PyFloat (Finite (99 / 4)))])"
    by fastforce
  show ?thesis by (simp add: a b float_eval)
qed

text \<open>
  A volume of \<open>9007199270847119\<close> bytes: the exact quotient \<open>8388608.01499999966...\<close>
  rounds to \<open>8388608.01\<close>, and \<^verbatim>\<open>total_gb\<close> is \<open>8388608.02\<close>.
\<close>

theorem get_disk_info_double_rounding:
  "get_disk_info env_disk_huge =
     Inr (PyDict
       [(''total_gb'', PyFloat (Finite (2251799819053957 / 268435456))),
        (''used_gb'', PyFloat (Finite 0)),
        (''free_gb'', PyFloat (Finite (2251799819053957 / 268435456))),
        (''utilization_percent'', PyFloat (Finite 0))]) \<and>
   fl (round_to_decimals 2 (of_int 9007199270847119 / 1024 ^ 3)) =
     Finite (4503599632739205 / 536870912) \<and>
   dict_item (projr (get_disk_info env_disk_huge)) ''total_gb'' \<noteq>
     Some (PyFloat (fl (round_to_decimals 2 (of_int 9007199270847119 / 1024 ^ 3))))"
  by (simp add: env_eval)

subsection \<open>The CPU\<close>

lemma get_cpu_info_returns:
  assumes "psutil_cpu_count env False = Inr physical"
    and "psutil_cpu_count env True = Inr logical"
    and "psutil_cpu_percent env = Inr usage"
    and "psutil_cpu_freq env = Inr cpu_freq"
    and "platform_processor env = Inr processor"
  shows "\<exists>cpu. get_cpu_info env = Inr cpu"
  using assms by (simp add: get_cpu_info_def query_defs split: sum.splits)

lemma get_cpu_info_result:
  assumes "get_cpu_info env = Inr cpu"
  shows "\<exists>physical logical usage cpu_freq name.
           psutil_cpu_count env False = Inr physical \<and>
           psutil_cpu_count env True = Inr logical \<and>
           psutil_cpu_percent env = Inr usage \<and>
           psutil_cpu_freq env = Inr cpu_freq \<and>
           cpu = PyDict
             ([(''physical_cores'', cpu_count_value physical),
               (''logical_cores'', cpu_count_value logical),
               (''cpu_usage_percent'', PyFloat usage)] @
              (case cpu_freq of
                 None \<Rightarrow> []
               | Some f \<Rightarrow> [(''cpu_frequency_mhz'', PyFloat (py_round (scpufreq_current f) 2))]) @
              [(''processor_name'', name)])"
  using assms
  by (auto simp add: get_cpu_info_def bind_exn_def try_except_def platform_processor_name_def
      Let_def split: sum.splits option.splits if_splits)

text \<open>
  Claim C8, as the code has it. With the psutil calls returning, \<^verbatim>\<open>processor_name\<close> is
  resolved so: when \<^verbatim>\<open>cpuinfo\<close> is installed and returns, its \<^verbatim>\<open>brand_raw\<close> string is used
  if the result has one, and the literal \<^verbatim>\<open>"Unknown"\<close> if it has none, the platform string
  not being consulted; when \<^verbatim>\<open>cpuinfo\<close> is not installed, or raises, the name is
  \<^verbatim>\<open>platform.processor()\<close>, and the literal \<^verbatim>\<open>"Unknown"\<close> if that string is empty.
\<close>

theorem processor_name_chain:
  assumes "psutil_cpu_count env False = Inr physical"
    and "psutil_cpu_count env True = Inr logical"
    and "psutil_cpu_percent env = Inr usage"
    and "psutil_cpu_freq env = Inr cpu_freq"
  shows "(\<forall>info brand.
            CPUINFO_AVAILABLE env \<and> cpuinfo_get_cpu_info env = Inr info \<and>
            map_of info ''brand_raw'' = Some brand \<longrightarrow>
            (\<exists>cpu. get_cpu_info env = Inr cpu \<and> dict_item cpu ''processor_name'' = Some brand)) \<and>
         (\<forall>info.
            CPUINFO_AVAILABLE env \<and> cpuinfo_get_cpu_info env = Inr info \<and>
            map_of info ''brand_raw'' = None \<longrightarrow>
            (\<exists>cpu. get_cpu_info env = Inr cpu \<and>
               dict_item cpu ''processor_name'' = Some (PyStr ''Unknown''))) \<and>
         (\<forall>processor.
            (\<not> CPUINFO_AVAILABLE env \<or> (\<exists>e. cpuinfo_get_cpu_info env = Inl e)) \<and>
            platform_processor env = Inr processor \<longrightarrow>
            (\<exists>cpu. get_cpu_info env = Inr cpu \<and>
               dict_item cpu ''processor_name'' =
                 Some (PyStr (if processor = [] then ''Unknown'' else processor))))"
  using assms
  by (auto simp add: get_cpu_info_def bind_exn_def try_except_def platform_processor_name_def
      Let_def dict_get_def str_or_def dict_item_def map_of_dict_setitem)

text \<open>
  The four ways: \<^verbatim>\<open>cpuinfo\<close> gives the brand; \<^verbatim>\<open>cpuinfo\<close> returns without a brand;
  \<^verbatim>\<open>cpuinfo\<close> is not installed and the platform string is \<^verbatim>\<open>"x86_64"\<close>; \<^verbatim>\<open>cpuinfo\<close>
  raises and the platform string is empty.
\<close>

theorem processor_name_chain_witness:
  "dict_item (projr (get_cpu_info env_cpuinfo)) ''processor_name'' =
     Some (PyStr ''AMD Ryzen 7 5800X'') \<and>
   dict_item (projr (get_cpu_info env_cpuinfo_no_brand)) ''processor_name'' =
     Some (PyStr ''Unknown'') \<and>
   dict_item (projr (get_cpu_info sample_env)) ''processor_name'' = Some (PyStr ''x86_64'') \<and>
   dict_item (projr (get_cpu_info env_cpuinfo_raises)) ''processor_name'' =
     Some (PyStr ''Unknown'')"
proof -
  have a: "psutil_cpu_count env_cpuinfo False = Inr (Some 4)"
    "psutil_cpu_count env_cpuinfo True = Inr (Some 8)"
    "psutil_cpu_percent env_cpuinfo = Inr (Finite (25 / 2))"
    "psutil_cpu_freq env_cpuinfo = Inr (Some \<lparr>scpufreq_current = Finite (1228799 / 512)\<rparr>)"
    and a': "CPUINFO_AVAILABLE env_cpuinfo"
    "cpuinfo_get_cpu_info env_cpuinfo = Inr [(''brand_raw'', PyStr ''AMD Ryzen 7 5800X'')]"
    by (simp_all add: env_cpuinfo_def sample_env_def)
  have n: "psutil_cpu_count env_cpuinfo_no_brand False = Inr (Some 4)"
    "psutil_cpu_count env_cpuinfo_no_brand True = Inr (Some 8)"
    "psutil_cpu_percent env_cpuinfo_no_brand = Inr (Finite (25 / 2))"
    "psutil_cpu_freq env_cpuinfo_no_brand =
       Inr (Some \<lparr>scpufreq_current = Finite (1228799 / 512)\<rparr>)"
    and n': "CPUINFO_AVAILABLE env_cpuinfo_no_brand"
    "cpuinfo_get_cpu_info env_cpuinfo_no_brand = Inr [(''arch'', PyStr ''X86_64'')]"
    by (simp_all add: env_cpuinfo_no_brand_def sample_env_def)
  have b: "psutil_cpu_count sample_env False = Inr (Some 4)"
    "psutil_cpu_count sample_env True = Inr (Some 8)"
    "psutil_cpu_percent sample_env = Inr (Finite (25 / 2))"
    "psutil_cpu_freq sample_env = Inr (Some \<lparr>scpufreq_current = Finite (1228799 / 512)\<rparr>)"
    and b': "\<not> CPUINFO_AVAILABLE sample_env" "platform_processor sample_env = Inr ''x86_64''"
    by (simp_all add: sample_env_def)
  have c: "psutil_cpu_count env_cpuinfo_raises False = Inr (Some 4)"
    "psutil_cpu_count env_cpuinfo_raises True = Inr (Some 8)"
    "psutil_cpu_percent env_cpuinfo_raises = Inr (Finite (25 / 2))"
    "psutil_cpu_freq env_cpuinfo_raises = Inr (Some \<lparr>scpufreq_current = Finite (1228799 / 512)\<rparr>)"
    and c': "cpuinfo_get_cpu_info env_cpuinfo_raises = Inl (Exn ''Exception'' ''cpuid failed'')"
    "platform_processor env_cpuinfo_raises = Inr ''''"
    by (simp_all add: env_cpuinfo_raises_def sample_env_def)
  from processor_name_chain [OF a] a'
  have "\<exists>cpu. get_cpu_info env_cpuinfo = Inr cpu \<and>
          dict_item cpu ''processor_name'' = Some (PyStr ''AMD Ryzen 7 5800X'')"
    by simp
  moreover from processor_name_chain [OF n] n'
  have "\<exists>cpu. get_cpu_info env_cpuinfo_no_brand = Inr cpu \<and>
          dict_item cpu ''processor_name'' = Some (PyStr ''Unknown'')"
    by simp
  moreover from processor_name_chain [OF b] b'
  have "\<exists>cpu. get_cpu_info sample_env = Inr cpu \<and>
          dict_item cpu ''processor_name'' = Some (PyStr ''x86_64'')"
    by simp
  moreover from processor_name_chain [OF c] c'
  have "\<exists>cpu. get_cpu_info env_cpuinfo_raises = Inr cpu \<and>
          dict_item cpu ''processor_name'' = Some (PyStr ''Unknown'')"
    by simp
  ultimately show ?thesis by auto
qed

text \<open>
  Where \<^verbatim>\<open>cpuinfo\<close> returns a dictionary without \<^verbatim>\<open>brand_raw\<close>, the default of
  \<^verbatim>\<open>info.get\<close> is used: the name is \<^verbatim>\<open>"Unknown"\<close> although \<^verbatim>\<open>platform.processor()\<close> is
  \<^verbatim>\<open>"x86_64"\<close>.
\<close>

theorem processor_name_unknown_without_brand:
  "CPUINFO_AVAILABLE env_cpuinfo_no_brand \<and>
   cpuinfo_get_cpu_info env_cpuinfo_no_brand = Inr [(''arch'', PyStr ''X86_64'')] \<and>
   platform_processor env_cpuinfo_no_brand = Inr ''x86_64'' \<and>
   get_cpu_info env_cpuinfo_no_brand =
     Inr (PyDict
       [(''physical_cores'', PyInt 4), (''logical_cores'', PyInt 8),
        (''cpu_usage_percent'', PyFloat (Finite (25 / 2))),
        (''cpu_frequency_mhz'', PyFloat (Finite 2400)),
        (''processor_name'', PyStr ''Unknown'')]) \<and>
   dict_item (projr (get_cpu_info env_cpuinfo_no_brand)) ''processor_name'' \<noteq>
     Some (PyStr ''x86_64'')"
  by (simp add: env_eval)

text \<open>
  Claim C9, as the code has it. In the record that \<^verbatim>\<open>get_cpu_info\<close> returns,
  \<^verbatim>\<open>physical_cores\<close> and \<^verbatim>\<open>logical_cores\<close> are always present: each holds the count that
  \<^verbatim>\<open>psutil.cpu_count\<close> reports, an integer that is not negative, or \<^verbatim>\<open>None\<close> when it
  reports none. The frequency field \<^verbatim>\<open>cpu_frequency_mhz\<close> is present exactly when
  \<^verbatim>\<open>psutil.cpu_freq()\<close> reports a frequency.
\<close>

theorem cpu_core_fields:
  assumes "get_cpu_info env = Inr cpu"
  shows "\<exists>physical logical cpu_freq.
           psutil_cpu_count env False = Inr physical \<and>
           psutil_cpu_count env True = Inr logical \<and>
           psutil_cpu_freq env = Inr cpu_freq \<and>
           dict_item cpu ''physical_cores'' =
             Some (case physical of None \<Rightarrow> PyNone | Some n \<Rightarrow> PyInt (int n)) \<and>
           dict_item cpu ''logical_cores'' =
             Some (case logical of None \<Rightarrow> PyNone | Some n \<Rightarrow> PyInt (int n)) \<and>
           (dict_item cpu ''cpu_frequency_mhz'' = None \<longleftrightarrow> cpu_freq = None)"
proof -
  from get_cpu_info_result [OF assms] obtain physical logical usage cpu_freq name where
    p: "psutil_cpu_count env False = Inr physical" and
    l: "psutil_cpu_count env True = Inr logical" and
    f: "psutil_cpu_freq env = Inr cpu_freq" and
    c: "cpu = PyDict
             ([(''physical_cores'', cpu_count_value physical),
               (''logical_cores'', cpu_count_value logical),
               (''cpu_usage_percent'', PyFloat usage)] @
              (case cpu_freq of
                 None \<Rightarrow> []
               | Some f \<Rightarrow> [(''cpu_frequency_mhz'', PyFloat (py_round (scpufreq_current f) 2))]) @
              [(''processor_name'', name)])"
    by blast
  have a: "dict_item cpu ''physical_cores'' =
          Some (case physical of None \<Rightarrow> PyNone | Some n \<Rightarrow> PyInt (int n))"
    using c by (simp add: dict_item_def cpu_count_value_def)
  have b: "dict_item cpu ''logical_cores'' =
          Some (case logical of None \<Rightarrow> PyNone | Some n \<Rightarrow> PyInt (int n))"
    using c by (simp add: dict_item_def cpu_count_value_def)
  have d: "dict_item cpu ''cpu_frequency_mhz'' = None \<longleftrightarrow> cpu_freq = None"
    using c by (simp add: dict_item_def split: option.splits)
  show ?thesis
    by (intro exI conjI, rule p, rule l, rule f, rule a, rule b, rule d)
qed

theorem cpu_core_fields_witness:
  "dict_item (projr (get_cpu_info sample_env)) ''physical_cores'' = Some (PyInt 4) \<and>
   dict_item (projr (get_cpu_info sample_env)) ''logical_cores'' = Some (PyInt 8) \<and>
   dict_item (projr (get_cpu_info sample_env)) ''cpu_frequency_mhz'' \<noteq> None"
proof -
  have r: "get_cpu_info sample_env = Inr (projr (get_cpu_info sample_env))"
    by (simp add: sample_eval)
  have s: "psutil_cpu_count sample_env False = Inr (Some 4)"
    "psutil_cpu_count sample_env True = Inr (Some 8)"
    "psutil_cpu_freq sample_env = Inr (Some \<lparr>scpufreq_current = Finite (1228799 / 512)\<rparr>)"
    by (simp_all add: sample_env_def)
  from cpu_core_fields [OF r] s show ?thesis by auto
qed

text \<open>
  Where \<^verbatim>\<open>psutil.cpu_count\<close> returns \<^verbatim>\<open>None\<close>, both keys are in the record, with the
  value \<^verbatim>\<open>None\<close>.
\<close>

theorem cpu_cores_null:
  "get_cpu_info env_no_cpu_count =
     Inr (PyDict
       [(''physical_cores'', PyNone), (''logical_cores'', PyNone),
        (''cpu_usage_percent'', PyFloat (Finite (25 / 2))),
        (''processor_name'', PyStr ''x86_64'')]) \<and>
   dict_item (projr (get_cpu_info env_no_cpu_count)) ''physical_cores'' = Some PyNone \<and>
   dict_item (projr (get_cpu_info env_no_cpu_count)) ''logical_cores'' = Some PyNone"
  by (simp add: env_eval)

text \<open>
  Claim C10. Whenever the frequency field \<^verbatim>\<open>cpu_frequency_mhz\<close> is in the record that
  \<^verbatim>\<open>get_cpu_info\<close> returns, its value is \<^verbatim>\<open>round(cpu_freq.current, 2)\<close>: for a finite
  frequency, the frequency rounded to two decimals.
\<close>

theorem cpu_frequency_rounded:
  assumes "get_cpu_info env = Inr cpu"
    and "dict_item cpu ''cpu_frequency_mhz'' = Some v"
  shows "\<exists>f. psutil_cpu_freq env = Inr (Some f) \<and>
           v = PyFloat (py_round (scpufreq_current f) 2) \<and>
           (\<forall>x. scpufreq_current f = Finite x \<longrightarrow> v = PyFloat (fl (round_to_decimals 2 x)))"
  using get_cpu_info_result [OF assms(1)] assms(2)
  by (auto simp add: dict_item_def split: option.splits)

text \<open>The sample clock \<open>2399.998046875\<close> becomes \<open>2400.0\<close>.\<close>

theorem cpu_frequency_rounded_witness:
  "psutil_cpu_freq sample_env = Inr (Some \<lparr>scpufreq_current = Finite (1228799 / 512)\<rparr>) \<and>
   dict_item (projr (get_cpu_info sample_env)) ''cpu_frequency_mhz'' = Some (PyFloat (Finite 2400))"
proof -
  have r: "get_cpu_info sample_env = Inr (projr (get_cpu_info sample_env))"
    and i: "dict_item (projr (get_cpu_info sample_env)) ''cpu_frequency_mhz'' =
      Some (PyFloat (Finite 2400))"
    and f: "psutil_cpu_freq sample_env = Inr (Some \<lparr>scpufreq_current = Finite (1228799 / 512)\<rparr>)"
    by (simp_all add: sample_eval)
  from cpu_frequency_rounded [OF r i] f show ?thesis using i by simp
qed

section \<open>The snapshot\<close>

lemma get_system_info_returns:
  "platform_uname env = Inr uname \<Longrightarrow> \<exists>system. get_system_info env = Inr system"
  by (simp add: get_system_info_def bind_exn_def)

lemma get_memory_info_returns:
  assumes "psutil_virtual_memory env = Inr mem"
    and "\<bar>svmem_total mem\<bar> < 2 ^ 1024"
    and "\<bar>svmem_available mem\<bar> < 2 ^ 1024"
    and "\<bar>svmem_used mem\<bar> < 2 ^ 1024"
  shows "\<exists>memory. get_memory_info env = Inr memory"
proof -
  obtain t where t: "bytes_to_gb (svmem_total mem) = Inr t"
    using bytes_to_gb_returns [OF assms(2)] by blast
  obtain a where a: "bytes_to_gb (svmem_available mem) = Inr a"
    using bytes_to_gb_returns [OF assms(3)] by blast
  obtain u where u: "bytes_to_gb (svmem_used mem) = Inr u"
    using bytes_to_gb_returns [OF assms(4)] by blast
  show ?thesis
    using assms(1) t a u by (simp add: get_memory_info_def bind_exn_def)
qed


text \<open>
  Claim C1, as the code has it. In every environment where \<^verbatim>\<open>platform.uname\<close>, the psutil
  CPU calls, \<^verbatim>\<open>platform.processor\<close> and \<^verbatim>\<open>psutil.virtual_memory\<close> return (the memory
  counters being machine counters), \<^verbatim>\<open>get_sysinfo\<close> returns the snapshot of five fields,
  whatever the disk, GPU and \<^verbatim>\<open>cpuinfo\<close> sources do: the disk field is the four numbers or
  an \<^verbatim>\<open>error\<close> record, the GPU field is a list of devices or a \<^verbatim>\<open>status\<close> record.
\<close>

theorem get_sysinfo_returns:
  assumes "platform_uname env = Inr uname"
    and "psutil_cpu_count env False = Inr physical"
    and "psutil_cpu_count env True = Inr logical"
    and "psutil_cpu_percent env = Inr usage"
    and "psutil_cpu_freq env = Inr cpu_freq"
    and "platform_processor env = Inr processor"
    and "psutil_virtual_memory env = Inr mem"
    and "\<bar>svmem_total mem\<bar> < 2 ^ 1024"
    and "\<bar>svmem_available mem\<bar> < 2 ^ 1024"
    and "\<bar>svmem_used mem\<bar> < 2 ^ 1024"
  shows "\<exists>system cpu memory disk gpu.
           get_sysinfo env =
             Inr (PyDict
               [(''system'', system), (''cpu'', cpu), (''memory'', memory),
                (''disk'', disk), (''gpu'', gpu)]) \<and>
           get_disk_info env = Inr disk \<and>
           (dict_keys disk = [''error''] \<or>
            dict_keys disk = [''total_gb'', ''used_gb'', ''free_gb'', ''utilization_percent'']) \<and>
           get_gpu_info env = Inr gpu \<and>
           (dict_keys gpu = [''status''] \<or> (\<exists>entries. gpu = PyList entries))"
proof -
  obtain system where s: "get_system_info env = Inr system"
    using get_system_info_returns [OF assms(1)] by blast
  obtain cpu where c: "get_cpu_info env = Inr cpu"
    using get_cpu_info_returns [OF assms(2-6)] by blast
  obtain memory where m: "get_memory_info env = Inr memory"
    using get_memory_info_returns [OF assms(7-10)] by blast
  obtain disk where d: "get_disk_info env = Inr disk"
    "dict_keys disk = [''error''] \<or>
     dict_keys disk = [''total_gb'', ''used_gb'', ''free_gb'', ''utilization_percent'']"
    using get_disk_info_shape by blast
  obtain gpu where g: "get_gpu_info env = Inr gpu"
    "dict_keys gpu = [''status''] \<or> (\<exists>entries. gpu = PyList entries)"
    using get_gpu_info_shape by blast
  have "get_sysinfo env =
          Inr (PyDict
            [(''system'', system), (''cpu'', cpu), (''memory'', memory),
             (''disk'', disk), (''gpu'', gpu)])"
    using s c m d(1) g(1) by (simp add: get_sysinfo_def bind_exn_def)
  with d g show ?thesis by blast
qed

text \<open>
  The root volume cannot be read and \<^verbatim>\<open>GPUtil\<close> is not installed: the snapshot is
  returned, with the two degraded fields.
\<close>

theorem get_sysinfo_returns_witness:
  "get_sysinfo env_disk_raises =
     Inr (PyDict
       [(''system'', PyDict
          [(''system_name'', PyStr ''Linux''), (''node_name'', PyStr ''host''),
           (''os_release'', PyStr ''6.1.0''), (''os_version'', PyStr ''#1 SMP''),
           (''machine_type'', PyStr ''x86_64''), (''processor'', PyStr ''x86_64'')]),
        (''cpu'', PyDict
          [(''physical_cores'', PyInt 4), (''logical_cores'', PyInt 8),
           (''cpu_usage_percent'', PyFloat (Finite (25 / 2))),
           (''cpu_frequency_mhz'', PyFloat (Finite 2400)),
           (''processor_name'', PyStr ''x86_64'')]),
        (''memory'', PyDict
          [(''total_gb'', PyFloat (Finite 16)), (''available_gb'', PyFloat (Finite 8)),
           (''used_gb'', PyFloat (Finite 8)), (''utilization_percent'', PyFloat (Finite 50))]),
        (''disk'', PyDict [(''error'', PyStr ''[Errno 2] No such file or directory'')]),
        (''gpu'', PyDict
          [(''status'', PyStr ''GPUtil not installed or no NVIDIA GPU detected'')])])"
proof -
  have "\<exists>system cpu memory disk gpu.
           get_sysinfo env_disk_raises =
             Inr (PyDict
               [(''system'', system), (''cpu'', cpu), (''memory'', memory),
                (''disk'', disk), (''gpu'', gpu)]) \<and>
           get_disk_info env_disk_raises = Inr disk \<and>
           (dict_keys disk = [''error''] \<or>
            dict_keys disk = [''total_gb'', ''used_gb'', ''free_gb'', ''utilization_percent'']) \<and>
           get_gpu_info env_disk_raises = Inr gpu \<and>
           (dict_keys gpu = [''status''] \<or> (\<exists>entries. gpu = PyList entries))"
    by (rule get_sysinfo_returns [of env_disk_raises])
      (simp_all add: env_disk_raises_def sample_env_def)+
  then obtain system cpu memory disk gpu where
    "get_sysinfo env_disk_raises =
       Inr (PyDict
         [(''system'', system), (''cpu'', cpu), (''memory'', memory),
          (''disk'', disk), (''gpu'', gpu)])"
    by blast
  then show ?thesis
    by (simp add: env_eval)
qed

text \<open>
  Where \<^verbatim>\<open>psutil.virtual_memory()\<close> raises, nothing catches the exception and it leaves
  \<^verbatim>\<open>get_sysinfo\<close>.
\<close>

theorem get_sysinfo_memory_raises:
  "get_sysinfo env_memory_raises =
     Inl (Exn ''PermissionError'' ''[Errno 13] Permission denied'')"
  by (simp add: env_eval)




end
